theory Spec2Isabelle
  imports Complex_Main "HOL-Library.Word"
begin

section \<open>The collaborators of QrCodeGenerator\<close>

text \<open>
  \<^verbatim>\<open>QrCodeGenerator.cpp\<close> renders a \<^verbatim>\<open>qrcodegen::QrCode\<close>. That class belongs to a
  library outside the repository; the renderer uses only its two accessors
  \<^verbatim>\<open>getSize()\<close> and \<^verbatim>\<open>getModule(x, y)\<close>, so a symbol is the pair of them. Sizes and
  coordinates are C++ \<^verbatim>\<open>int\<close>s and are modelled by \<open>int\<close>: a symbol has at most 177
  modules per side and a border is a \<^verbatim>\<open>quint16\<close>, so no sum the renderer forms comes near
  the 32-bit range.
\<close>

record qrcode =
  getSize :: int
  getModule :: "int \<Rightarrow> int \<Rightarrow> bool"

datatype Ecc = LOW | MEDIUM | QUARTILE | HIGH

type_synonym quint16 = "16 word"

subsection \<open>Writing an integer to a QTextStream\<close>

text \<open>
  \<^verbatim>\<open>sb << n\<close> for an \<^verbatim>\<open>int\<close> appends the decimal numeral of \<open>n\<close>, with a minus sign
  when \<open>n\<close> is negative and no padding (the stream keeps its default settings).
\<close>

definition digit_char :: "nat \<Rightarrow> char" where
  "digit_char d = ''0123456789'' ! d"

fun show_nat :: "nat \<Rightarrow> string" where
  "show_nat n = (if n < 10 then [digit_char n] else show_nat (n div 10) @ [digit_char (n mod 10)])"

declare show_nat.simps [simp del]

definition show_int :: "int \<Rightarrow> string" where
  "show_int i = (if i < 0 then CHR ''-'' # show_nat (nat (- i)) else show_nat (nat i))"

section \<open>The SVG projection: toSvgString\<close>

text \<open>
  The inner loop \<^verbatim>\<open>for (int x = 0; x < qr.getSize(); x++)\<close> of \<^verbatim>\<open>toSvgString\<close>, from
  column \<open>x\<close> on, in row \<open>y\<close>; \<open>sb\<close> is what the stream holds so far. The border is a
  \<^verbatim>\<open>quint16\<close>, promoted to \<^verbatim>\<open>int\<close> in \<^verbatim>\<open>x + border\<close>.
\<close>

function toSvgString_x :: "qrcode \<Rightarrow> quint16 \<Rightarrow> int \<Rightarrow> int \<Rightarrow> string \<Rightarrow> string" where
  "toSvgString_x qr border y x sb =
     (if x < getSize qr then
        toSvgString_x qr border y (x + 1)
          (if getModule qr x y then
             sb @ (if x = 0 \<and> y = 0 then '''' else '' '') @ ''M'' @ show_int (x + uint border)
                @ '','' @ show_int (y + uint border) @ ''h1v1h-1z''
           else sb)
      else sb)"
  by pat_completeness auto
termination
  by (relation "measure (\<lambda>(qr, border, y, x, sb). nat (getSize qr - x))") auto

declare toSvgString_x.simps [simp del]

text \<open>The outer loop \<^verbatim>\<open>for (int y = 0; y < qr.getSize(); y++)\<close>, from row \<open>y\<close> on.\<close>

function toSvgString_y :: "qrcode \<Rightarrow> quint16 \<Rightarrow> int \<Rightarrow> string \<Rightarrow> string" where
  "toSvgString_y qr border y sb =
     (if y < getSize qr then toSvgString_y qr border (y + 1) (toSvgString_x qr border y 0 sb)
      else sb)"
  by pat_completeness auto
termination
  by (relation "measure (\<lambda>(qr, border, y, sb). nat (getSize qr - y))") auto

declare toSvgString_y.simps [simp del]

definition toSvgString :: "qrcode \<Rightarrow> quint16 \<Rightarrow> string" where
  \<open>toSvgString qr border =
     (let sb = '''';
          sb = sb @ ''<?xml version="1.0" encoding="UTF-8"?>''
                  @ ''<!DOCTYPE svg PUBLIC "-//W3C//DTD SVG 1.1//EN" "http://www.w3.org/Graphics/SVG/1.1/DTD/svg11.dtd">''
                  @ ''<svg xmlns="http://www.w3.org/2000/svg" version="1.1" viewBox="0 0 ''
                  @ show_int (getSize qr + uint border * 2) @ '' ''
                  @ show_int (getSize qr + uint border * 2)
                  @ ''" stroke="none"><rect width="100%" height="100%" fill="#FFFFFF"/><path d="'';
          sb = toSvgString_y qr border 0 sb;
          sb = sb @ ''" fill="#000000"/></svg>''
      in sb)\<close>

section \<open>The drawing context\<close>

text \<open>
  \<^verbatim>\<open>QPainter\<close>, \<^verbatim>\<open>QImage\<close>, \<^verbatim>\<open>QBrush\<close> and \<^verbatim>\<open>QPen\<close> belong to Qt, outside the repository.
  The model keeps the part of their documented behaviour that the renderer relies on.
  A \<^verbatim>\<open>qreal\<close> is a \<^verbatim>\<open>double\<close>; it is modelled by the real number its expression
  denotes, so rounding is left out. What a painter has drawn is kept as the list of its
  drawing operations, each with the transform, brush and pen in force when it was issued,
  rather than as pixels.
\<close>

type_synonym qreal = real

text \<open>
  A \<^verbatim>\<open>QTransform\<close> is a 3 by 3 matrix; it maps the point \<open>(x, y)\<close> to
  \<open>(x', y')\<close> with \<open>x' = m11 * x + m21 * y + dx\<close>, \<open>y' = m22 * y + m12 * x + dy\<close>, both
  divided by \<open>w' = m13 * x + m23 * y + m33\<close>.
\<close>

record QTransform =
  m11 :: qreal
  m12 :: qreal
  m13 :: qreal
  m21 :: qreal
  m22 :: qreal
  m23 :: qreal
  dx :: qreal
  dy :: qreal
  m33 :: qreal

definition identity :: QTransform where
  "identity = \<lparr>m11 = 1, m12 = 0, m13 = 0, m21 = 0, m22 = 1, m23 = 0, dx = 0, dy = 0, m33 = 1\<rparr>"

definition map_point :: "QTransform \<Rightarrow> qreal \<times> qreal \<Rightarrow> qreal \<times> qreal" where
  "map_point t p =
     (let x = fst p; y = snd p;
          x' = m11 t * x + m21 t * y + dx t;
          y' = m22 t * y + m12 t * x + dy t;
          w' = m13 t * x + m23 t * y + m33 t
      in (x' / w', y' / w'))"

text \<open>\<^verbatim>\<open>QTransform::scale(sx, sy)\<close> and \<^verbatim>\<open>QTransform::translate(dx, dy)\<close>.\<close>

definition transform_scale :: "qreal \<Rightarrow> qreal \<Rightarrow> QTransform \<Rightarrow> QTransform" where
  "transform_scale sx sy t =
     t\<lparr>m11 := m11 t * sx, m12 := m12 t * sx, m13 := m13 t * sx,
       m21 := m21 t * sy, m22 := m22 t * sy, m23 := m23 t * sy\<rparr>"

definition transform_translate :: "qreal \<Rightarrow> qreal \<Rightarrow> QTransform \<Rightarrow> QTransform" where
  "transform_translate tx ty t =
     t\<lparr>dx := dx t + tx * m11 t + ty * m21 t,
       dy := dy t + ty * m22 t + tx * m12 t,
       m33 := m33 t + tx * m13 t + ty * m23 t\<rparr>"

record QRectF =
  rect_x :: qreal
  rect_y :: qreal
  rect_width :: qreal
  rect_height :: qreal

text \<open>Colours are ARGB values, as in the image format \<^verbatim>\<open>QImage::Format_ARGB32\<close>.\<close>

type_synonym QRgb = "32 word"

definition white :: QRgb where
  "white = 0xFFFFFFFF"

definition black :: QRgb where
  "black = 0xFF000000"

datatype BrushStyle = NoBrush | SolidPattern

datatype PenStyle = NoPen | SolidLine

record QBrush =
  brush_style :: BrushStyle
  brush_color :: QRgb

record QPen =
  pen_style :: PenStyle
  pen_color :: QRgb
  pen_width :: qreal

text \<open>
  \<^verbatim>\<open>QBrush(Qt::BrushStyle)\<close> and \<^verbatim>\<open>QPen(Qt::PenStyle)\<close> construct a black brush and a
  black pen of width 1 with the given style; \<^verbatim>\<open>setColor\<close> replaces the colour.
\<close>

definition QBrush_of_style :: "BrushStyle \<Rightarrow> QBrush" where
  "QBrush_of_style s = \<lparr>brush_style = s, brush_color = black\<rparr>"

definition setColor :: "QRgb \<Rightarrow> QBrush \<Rightarrow> QBrush" where
  "setColor c b = b\<lparr>brush_color := c\<rparr>"

definition QPen_of_style :: "PenStyle \<Rightarrow> QPen" where
  "QPen_of_style s = \<lparr>pen_style = s, pen_color = black, pen_width = 1\<rparr>"

datatype paint_op =
  Fill QRgb
| DrawRect QRectF QTransform QBrush QPen

text \<open>
  The state of a painter: its coordinate transform, brush and pen, and the operations
  applied so far to the device it paints on. The record is extensible, so that a painter
  may carry any further state (font, clipping, render hints and so on).
\<close>

record QPainter =
  worldTransform :: QTransform
  brush :: QBrush
  pen :: QPen
  surface :: "paint_op list"

definition painter_scale :: "qreal \<Rightarrow> qreal \<Rightarrow> 'a QPainter_scheme \<Rightarrow> 'a QPainter_scheme" where
  "painter_scale sx sy p = p\<lparr>worldTransform := transform_scale sx sy (worldTransform p)\<rparr>"

definition painter_translate :: "qreal \<Rightarrow> qreal \<Rightarrow> 'a QPainter_scheme \<Rightarrow> 'a QPainter_scheme" where
  "painter_translate tx ty p = p\<lparr>worldTransform := transform_translate tx ty (worldTransform p)\<rparr>"

definition setBrush :: "QBrush \<Rightarrow> 'a QPainter_scheme \<Rightarrow> 'a QPainter_scheme" where
  "setBrush b p = p\<lparr>brush := b\<rparr>"

definition setPen :: "QPen \<Rightarrow> 'a QPainter_scheme \<Rightarrow> 'a QPainter_scheme" where
  "setPen n p = p\<lparr>pen := n\<rparr>"

text \<open>\<^verbatim>\<open>drawRect\<close> draws with the current transform, brush and pen.\<close>

definition drawRect :: "QRectF \<Rightarrow> 'a QPainter_scheme \<Rightarrow> 'a QPainter_scheme" where
  "drawRect r p = p\<lparr>surface := surface p @ [DrawRect r (worldTransform p) (brush p) (pen p)]\<rparr>"

datatype Format = Format_ARGB32

record QImage =
  image_width :: int
  image_height :: int
  image_format :: Format
  image_content :: "paint_op list"

text \<open>
  \<^verbatim>\<open>QImage(width, height, format)\<close> allocates the buffer, whose content is not
  initialised; \<^verbatim>\<open>fill\<close> sets every pixel, so nothing of the earlier content remains.
\<close>

definition QImage_new :: "int \<Rightarrow> int \<Rightarrow> Format \<Rightarrow> QImage" where
  "QImage_new w h f = \<lparr>image_width = w, image_height = h, image_format = f, image_content = []\<rparr>"

definition image_fill :: "QRgb \<Rightarrow> QImage \<Rightarrow> QImage" where
  "image_fill c img = img\<lparr>image_content := [Fill c]\<rparr>"

text \<open>
  \<^verbatim>\<open>QPainter painter(&image)\<close> starts a painter on the image, with the identity transform,
  no brush and a black solid pen of width 1; \<^verbatim>\<open>painter.end()\<close> leaves in the image what
  was painted.
\<close>

definition QPainter_begin :: "QImage \<Rightarrow> QPainter" where
  "QPainter_begin img =
     \<lparr>worldTransform = identity, brush = QBrush_of_style NoBrush,
      pen = QPen_of_style SolidLine, surface = image_content img\<rparr>"

definition QPainter_end :: "QPainter \<Rightarrow> QImage \<Rightarrow> QImage" where
  "QPainter_end p img = img\<lparr>image_content := surface p\<rparr>"

section \<open>The paint projection: qrCodePaint\<close>

text \<open>
  The inner loop of \<^verbatim>\<open>qrCodePaint\<close>, from column \<open>x\<close> on, in row \<open>y\<close>. The rectangle is
  \<^verbatim>\<open>QRectF(x, y, 1.04, 1.04)\<close>.
\<close>

function qrCodePaint_x :: "'a QPainter_scheme \<Rightarrow> qrcode \<Rightarrow> int \<Rightarrow> int \<Rightarrow> 'a QPainter_scheme" where
  "qrCodePaint_x painter qrCode y x =
     (if x < getSize qrCode then
        qrCodePaint_x
          (if getModule qrCode x y then
             drawRect \<lparr>rect_x = real_of_int x, rect_y = real_of_int y,
                       rect_width = 1.04, rect_height = 1.04\<rparr> painter
           else painter)
          qrCode y (x + 1)
      else painter)"
  by pat_completeness auto
termination
  by (relation "measure (\<lambda>(painter, qrCode, y, x). nat (getSize qrCode - x))") auto

declare qrCodePaint_x.simps [simp del]

function qrCodePaint_y :: "'a QPainter_scheme \<Rightarrow> qrcode \<Rightarrow> int \<Rightarrow> 'a QPainter_scheme" where
  "qrCodePaint_y painter qrCode y =
     (if y < getSize qrCode then qrCodePaint_y (qrCodePaint_x painter qrCode y 0) qrCode (y + 1)
      else painter)"
  by pat_completeness auto
termination
  by (relation "measure (\<lambda>(painter, qrCode, y). nat (getSize qrCode - y))") auto

declare qrCodePaint_y.simps [simp del]

text \<open>
  \<^verbatim>\<open>qreal scale = qreal(size) / (qrCode.getSize()+2*border)\<close>: the sum is an \<^verbatim>\<open>int\<close>,
  converted to \<^verbatim>\<open>double\<close> for the division. The parameter \<^verbatim>\<open>size\<close> is written \<open>sz\<close>.
\<close>

definition qrCodePaint ::
  "'a QPainter_scheme \<Rightarrow> qrcode \<Rightarrow> quint16 \<Rightarrow> quint16 \<Rightarrow> 'a QPainter_scheme" where
  "qrCodePaint painter qrCode border sz =
     (let scale = real (unat sz) / real_of_int (getSize qrCode + 2 * uint border);
          painter = painter_scale scale scale painter;
          painter = painter_translate (real_of_int (uint border) - 0.02)
                      (real_of_int (uint border) - 0.02) painter
      in qrCodePaint_y painter qrCode 0)"

section \<open>The raster projection: qrCodeToImage\<close>

definition qrCodeToImage :: "qrcode \<Rightarrow> quint16 \<Rightarrow> quint16 \<Rightarrow> QImage" where
  "qrCodeToImage qrCode border sz =
     (let image = QImage_new (uint sz) (uint sz) Format_ARGB32;
          image = image_fill white image;
          painter = QPainter_begin image;
          brush = QBrush_of_style SolidPattern;
          brush = setColor black brush;
          painter = setBrush brush painter;
          painter = setPen (QPen_of_style NoPen) painter;
          painter = qrCodePaint painter qrCode border sz;
          image = QPainter_end painter image
      in image)"

section \<open>The entry points\<close>

text \<open>
  Each entry point converts the text to UTF-8, hands \<^verbatim>\<open>b.constData()\<close> to
  \<^verbatim>\<open>qrcodegen::QrCode::encodeText\<close> and renders the symbol it returns. \<^verbatim>\<open>QString::toUtf8\<close>
  and the encoder are outside the repository and are parameters here. The encoder takes a
  C string, so it sees the bytes up to the first zero byte. It either returns a symbol or
  throws; an exception is the result \<open>Inl e\<close>. The entry points contain no
  \<^verbatim>\<open>try\<close> block and no \<^verbatim>\<open>throw\<close>.
\<close>

type_synonym byte = "8 word"

definition constData :: "byte list \<Rightarrow> byte list" where
  "constData b = takeWhile (\<lambda>c. c \<noteq> 0) b"

definition generateQr ::
  "('q \<Rightarrow> byte list) \<Rightarrow> (byte list \<Rightarrow> Ecc \<Rightarrow> 'e + qrcode) \<Rightarrow>
     'q \<Rightarrow> quint16 \<Rightarrow> quint16 \<Rightarrow> Ecc \<Rightarrow> 'e + QImage" where
  "generateQr toUtf8 encodeText data sz borderSize errorCorrection =
     (let b = toUtf8 data in
      case encodeText (constData b) errorCorrection of
        Inl e \<Rightarrow> Inl e
      | Inr qrCode \<Rightarrow> Inr (qrCodeToImage qrCode borderSize sz))"

definition paintQr ::
  "('q \<Rightarrow> byte list) \<Rightarrow> (byte list \<Rightarrow> Ecc \<Rightarrow> 'e + qrcode) \<Rightarrow>
     'a QPainter_scheme \<Rightarrow> 'q \<Rightarrow> quint16 \<Rightarrow> quint16 \<Rightarrow> Ecc \<Rightarrow> 'e + 'a QPainter_scheme" where
  "paintQr toUtf8 encodeText painter data sz borderSize errorCorrection =
     (let b = toUtf8 data in
      case encodeText (constData b) errorCorrection of
        Inl e \<Rightarrow> Inl e
      | Inr qrCode \<Rightarrow> Inr (qrCodePaint painter qrCode borderSize sz))"

definition generateSvgQr ::
  "('q \<Rightarrow> byte list) \<Rightarrow> (byte list \<Rightarrow> Ecc \<Rightarrow> 'e + qrcode) \<Rightarrow>
     'q \<Rightarrow> quint16 \<Rightarrow> Ecc \<Rightarrow> 'e + string" where
  "generateSvgQr toUtf8 encodeText data borderSize errorCorrection =
     (let b = toUtf8 data in
      case encodeText (constData b) errorCorrection of
        Inl e \<Rightarrow> Inl e
      | Inr qrCode \<Rightarrow> Inr (toSvgString qrCode borderSize))"

section \<open>What the specification says about the SVG document\<close>

text \<open>
  The dark modules of a symbol in row-major order (\<open>y\<close> outer, \<open>x\<close> inner), as pairs
  \<open>(x, y)\<close>.
\<close>

definition dark_row :: "qrcode \<Rightarrow> int \<Rightarrow> (int \<times> int) list" where
  "dark_row qr y = map (\<lambda>x. (x, y)) (filter (\<lambda>x. getModule qr x y) [0..getSize qr - 1])"

definition dark_modules :: "qrcode \<Rightarrow> (int \<times> int) list" where
  "dark_modules qr = concat (map (dark_row qr) [0..getSize qr - 1])"

text \<open>The sub-path the specification gives for the dark module at \<open>(x, y)\<close>.\<close>

definition spec_sub_path :: "quint16 \<Rightarrow> int \<times> int \<Rightarrow> string" where
  "spec_sub_path border m =
     ''M'' @ show_int (fst m + uint border) @ '','' @ show_int (snd m + uint border) @ ''h1v1h-1z''"

text \<open>Strings joined by a single space, with nothing before the first.\<close>

fun join_space :: "string list \<Rightarrow> string" where
  "join_space [] = ''''"
| "join_space [s] = s"
| "join_space (s # t # ss) = s @ '' '' @ join_space (t # ss)"

definition spec_path_data :: "qrcode \<Rightarrow> quint16 \<Rightarrow> string" where
  "spec_path_data qr border = join_space (map (spec_sub_path border) (dark_modules qr))"

text \<open>
  The document template as the specification prints it: six lines, one element per
  line, for the view box side \<open>W\<close> and the path data \<open>d\<close>.
\<close>

definition spec_svg_template :: "int \<Rightarrow> string \<Rightarrow> string" where
  \<open>spec_svg_template W d =
     ''<?xml version="1.0" encoding="UTF-8"?>'' @ [CHR 0x0A]
     @ ''<!DOCTYPE svg PUBLIC "-//W3C//DTD SVG 1.1//EN" "http://www.w3.org/Graphics/SVG/1.1/DTD/svg11.dtd">'' @ [CHR 0x0A]
     @ ''<svg xmlns="http://www.w3.org/2000/svg" version="1.1" viewBox="0 0 '' @ show_int W @ '' '' @ show_int W
     @ ''" stroke="none">'' @ [CHR 0x0A]
     @ ''<rect width="100%" height="100%" fill="#FFFFFF"/>'' @ [CHR 0x0A]
     @ ''<path d="'' @ d @ ''" fill="#000000"/>'' @ [CHR 0x0A]
     @ ''</svg>''\<close>

text \<open>
  What the code writes before a sub-path: nothing for the module at \<open>(0, 0)\<close>, one space
  for every other module.
\<close>

definition separator :: "int \<times> int \<Rightarrow> string" where
  "separator m = (if fst m = 0 \<and> snd m = 0 then '''' else '' '')"

text \<open>
  The path data of the document is what the two loops of \<^verbatim>\<open>toSvgString\<close> write: the
  loops, run on an empty stream.
\<close>

definition path_data :: "qrcode \<Rightarrow> quint16 \<Rightarrow> string" where
  "path_data qr border = toSvgString_y qr border 0 ''''"

text \<open>The cells of the grid of a symbol that are dark.\<close>

definition dark_set :: "qrcode \<Rightarrow> (int \<times> int) set" where
  "dark_set qr =
     {(x, y). 0 \<le> x \<and> x < getSize qr \<and> 0 \<le> y \<and> y < getSize qr \<and> getModule qr x y}"

subsection \<open>Example symbols\<close>

text \<open>The symbol of one dark module and the 2 by 2 symbol with the dark diagonal.\<close>

definition single_module :: qrcode where
  "single_module = \<lparr>getSize = 1, getModule = (\<lambda>x y. x = 0 \<and> y = 0)\<rparr>"

definition diagonal :: qrcode where
  "diagonal = \<lparr>getSize = 2, getModule = (\<lambda>x y. 0 \<le> x \<and> x < 2 \<and> x = y)\<rparr>"

section \<open>What the specification says about painting\<close>

text \<open>The square drawn for the module at grid position \<open>(x, y)\<close>: 1.04 wide and high.\<close>

definition module_rect :: "int \<times> int \<Rightarrow> QRectF" where
  "module_rect m =
     \<lparr>rect_x = real_of_int (fst m), rect_y = real_of_int (snd m),
      rect_width = 1.04, rect_height = 1.04\<rparr>"


section \<open>The loops with a log of the module accesses\<close>

text \<open>
  To state which modules the loops read, the two loop nests are written once more with
  a log: \<open>getModule_logged\<close> returns the module and appends its arguments to the log.
  Everything else is as in the loops above.
\<close>

type_synonym access_log = "(int \<times> int) list"

definition getModule_logged :: "qrcode \<Rightarrow> int \<Rightarrow> int \<Rightarrow> access_log \<Rightarrow> bool \<times> access_log" where
  "getModule_logged qr x y acc = (getModule qr x y, acc @ [(x, y)])"

function toSvgString_x_logged ::
  "qrcode \<Rightarrow> quint16 \<Rightarrow> int \<Rightarrow> int \<Rightarrow> string \<times> access_log \<Rightarrow> string \<times> access_log" where
  "toSvgString_x_logged qr border y x (sb, acc) =
     (if x < getSize qr then
        (case getModule_logged qr x y acc of
           (m, acc') \<Rightarrow>
             toSvgString_x_logged qr border y (x + 1)
               (if m then
                  sb @ (if x = 0 \<and> y = 0 then '''' else '' '') @ ''M'' @ show_int (x + uint border)
                     @ '','' @ show_int (y + uint border) @ ''h1v1h-1z''
                else sb, acc'))
      else (sb, acc))"
  by pat_completeness auto
termination
  by (relation "measure (\<lambda>(qr, border, y, x, s). nat (getSize qr - x))") auto

declare toSvgString_x_logged.simps [simp del]

function toSvgString_y_logged ::
  "qrcode \<Rightarrow> quint16 \<Rightarrow> int \<Rightarrow> string \<times> access_log \<Rightarrow> string \<times> access_log" where
  "toSvgString_y_logged qr border y s =
     (if y < getSize qr then
        toSvgString_y_logged qr border (y + 1) (toSvgString_x_logged qr border y 0 s)
      else s)"
  by pat_completeness auto
termination
  by (relation "measure (\<lambda>(qr, border, y, s). nat (getSize qr - y))") auto

declare toSvgString_y_logged.simps [simp del]

function qrCodePaint_x_logged ::
  "'a QPainter_scheme \<times> access_log \<Rightarrow> qrcode \<Rightarrow> int \<Rightarrow> int \<Rightarrow> 'a QPainter_scheme \<times> access_log" where
  "qrCodePaint_x_logged (painter, acc) qrCode y x =
     (if x < getSize qrCode then
        (case getModule_logged qrCode x y acc of
           (m, acc') \<Rightarrow>
             qrCodePaint_x_logged
               (if m then
                  drawRect \<lparr>rect_x = real_of_int x, rect_y = real_of_int y,
                            rect_width = 1.04, rect_height = 1.04\<rparr> painter
                else painter, acc')
               qrCode y (x + 1))
      else (painter, acc))"
  by pat_completeness auto
termination
  by (relation "measure (\<lambda>(s, qrCode, y, x). nat (getSize qrCode - x))") auto

declare qrCodePaint_x_logged.simps [simp del]

function qrCodePaint_y_logged ::
  "'a QPainter_scheme \<times> access_log \<Rightarrow> qrcode \<Rightarrow> int \<Rightarrow> 'a QPainter_scheme \<times> access_log" where
  "qrCodePaint_y_logged s qrCode y =
     (if y < getSize qrCode then
        qrCodePaint_y_logged (qrCodePaint_x_logged s qrCode y 0) qrCode (y + 1)
      else s)"
  by pat_completeness auto
termination
  by (relation "measure (\<lambda>(s, qrCode, y). nat (getSize qrCode - y))") auto

declare qrCodePaint_y_logged.simps [simp del]

text \<open>All cells of the grid of a symbol, row by row.\<close>

definition grid_row :: "qrcode \<Rightarrow> int \<Rightarrow> (int \<times> int) list" where
  "grid_row qr y = map (\<lambda>x. (x, y)) [0..getSize qr - 1]"

definition grid_cells :: "qrcode \<Rightarrow> (int \<times> int) list" where
  "grid_cells qr = concat (map (grid_row qr) [0..getSize qr - 1])"

section \<open>Examples of the collaborators\<close>

text \<open>
  An encoder for the examples: it rejects more than three bytes and returns the 2 by 2
  diagonal symbol otherwise. The text is given as its bytes.
\<close>

definition example_encoder :: "byte list \<Rightarrow> Ecc \<Rightarrow> string + qrcode" where
  "example_encoder bs ecc = (if 3 < length bs then Inl ''data too long'' else Inr diagonal)"


text \<open>A painter as a caller may hand it in: a red solid brush and the default pen.\<close>

definition example_painter :: QPainter where
  "example_painter =
     \<lparr>worldTransform = identity,
      brush = \<lparr>brush_style = SolidPattern, brush_color = 0xFFFF0000\<rparr>,
      pen = QPen_of_style SolidLine, surface = []\<rparr>"




section \<open>The range of the integers\<close>

text \<open>
  For the symbols of the encoder, whose side is at most 177, every sum and product the
  renderer forms on \<^verbatim>\<open>int\<close>s lies within the 32-bit range, so \<open>int\<close> models them
  exactly.
\<close>

lemma int_sums_in_range:
  assumes "getSize qr \<le> 177" and "0 \<le> x" and "x < getSize qr"
  shows "0 \<le> x + uint (border :: quint16) \<and> x + uint border < 2 ^ 31
       \<and> x + 1 < 2 ^ 31
       \<and> 0 \<le> uint border * 2 \<and> uint border * 2 < 2 ^ 31
       \<and> 0 \<le> getSize qr + uint border * 2 \<and> getSize qr + uint border * 2 < 2 ^ 31"
proof -
  have "uint border < 65536"
    using uint_lt2p [of border] by (simp del: uint_lt2p)
  with assms uint_ge_0 [of border] show ?thesis
    by simp
qed

section \<open>Decimal numerals\<close>

lemma show_nat_small: "n < 10 \<Longrightarrow> show_nat n = [digit_char n]"
  by (simp add: show_nat.simps)

lemma show_nat_large: "10 \<le> n \<Longrightarrow> show_nat n = show_nat (n div 10) @ [digit_char (n mod 10)]"
  by (subst show_nat.simps) simp

lemma digit_char_cases:
  "d < 10 \<Longrightarrow> digit_char d \<in> set ''0123456789''"
  unfolding digit_char_def by (rule nth_mem) simp

lemma show_nat_chars: "set (show_nat n) \<subseteq> set ''0123456789''"
proof (induction n rule: show_nat.induct)
  case (1 n)
  show ?case
  proof (cases "n < 10")
    case True
    then show ?thesis
      using digit_char_cases [of n] by (simp add: show_nat_small)
  next
    case False
    have "n mod 10 < 10" by simp
    then have "digit_char (n mod 10) \<in> set ''0123456789''" by (rule digit_char_cases)
    with False 1 show ?thesis by (simp add: show_nat_large)
  qed
qed

lemma show_nat_no_M: "CHR ''M'' \<notin> set (show_nat n)"
  using show_nat_chars [of n] by auto

lemma show_int_no_M [simp]: "count_list (show_int i) CHR ''M'' = 0"
  using show_nat_no_M by (simp add: show_int_def count_list_0_iff)

lemma concat_map_concat:
  "concat (map f (concat xss)) = concat (map (\<lambda>xs. concat (map f xs)) xss)"
  by (induction xss) simp_all

section \<open>Closed forms of the SVG loops\<close>

lemma toSvgString_x_eq:
  "toSvgString_x qr border y x sb =
     sb @ concat (map (\<lambda>x. separator (x, y) @ spec_sub_path border (x, y))
                   (filter (\<lambda>x. getModule qr x y) [x..getSize qr - 1]))"
proof (induction qr border y x sb rule: toSvgString_x.induct)
  case (1 qr border y x sb)
  show ?case
  proof (cases "x < getSize qr")
    case True
    then have up: "[x..getSize qr - 1] = x # [x + 1..getSize qr - 1]"
      by (simp add: upto_rec1)
    show ?thesis
      using True 1 [OF True]
      by (subst toSvgString_x.simps) (simp add: up separator_def spec_sub_path_def)
  next
    case False
    then show ?thesis
      by (subst toSvgString_x.simps) simp
  qed
qed

lemma toSvgString_y_eq:
  "toSvgString_y qr border y sb =
     sb @ concat (map (\<lambda>y. concat (map (\<lambda>m. separator m @ spec_sub_path border m) (dark_row qr y)))
                   [y..getSize qr - 1])"
proof (induction qr border y sb rule: toSvgString_y.induct)
  case (1 qr border y sb)
  show ?case
  proof (cases "y < getSize qr")
    case True
    then have up: "[y..getSize qr - 1] = y # [y + 1..getSize qr - 1]"
      by (simp add: upto_rec1)
    show ?thesis
      using True 1 [OF True]
      by (subst toSvgString_y.simps) (simp add: up toSvgString_x_eq dark_row_def comp_def)
  next
    case False
    then show ?thesis
      by (subst toSvgString_y.simps) simp
  qed
qed

lemma toSvgString_y_dark_modules:
  "toSvgString_y qr border 0 sb =
     sb @ concat (map (\<lambda>m. separator m @ spec_sub_path border m) (dark_modules qr))"
  by (simp add: toSvgString_y_eq dark_modules_def concat_map_concat comp_def)

lemma toSvgString_path_data:
  \<open>toSvgString qr border =
     ''<?xml version="1.0" encoding="UTF-8"?>''
     @ ''<!DOCTYPE svg PUBLIC "-//W3C//DTD SVG 1.1//EN" "http://www.w3.org/Graphics/SVG/1.1/DTD/svg11.dtd">''
     @ ''<svg xmlns="http://www.w3.org/2000/svg" version="1.1" viewBox="0 0 ''
     @ show_int (getSize qr + 2 * uint border) @ '' '' @ show_int (getSize qr + 2 * uint border)
     @ ''" stroke="none"><rect width="100%" height="100%" fill="#FFFFFF"/><path d="''
     @ path_data qr border
     @ ''" fill="#000000"/></svg>''\<close>
  by (simp add: toSvgString_def path_data_def toSvgString_y_dark_modules mult.commute)

lemma path_data_dark_modules:
  "path_data qr border =
     concat (map (\<lambda>m. separator m @ spec_sub_path border m) (dark_modules qr))"
  by (simp add: path_data_def toSvgString_y_dark_modules)

lemma set_dark_row:
  "set (dark_row qr y) = {(x, y') . y' = y \<and> 0 \<le> x \<and> x < getSize qr \<and> getModule qr x y}"
  by (auto simp: dark_row_def)

lemma set_dark_modules: "set (dark_modules qr) = dark_set qr"
  by (auto simp: dark_modules_def dark_set_def set_dark_row)

lemma distinct_dark_row: "distinct (dark_row qr y)"
  by (simp add: dark_row_def distinct_map inj_on_def)

lemma distinct_dark_rows:
  "distinct ys \<Longrightarrow> distinct (concat (map (dark_row qr) ys))"
proof (induction ys)
  case Nil
  then show ?case by simp
next
  case (Cons y ys)
  have "set (dark_row qr y) \<inter> (\<Union>y' \<in> set ys. set (dark_row qr y')) = {}"
    using Cons.prems by (auto simp: set_dark_row)
  with Cons show ?case
    by (simp add: distinct_dark_row)
qed

lemma distinct_dark_modules: "distinct (dark_modules qr)"
  unfolding dark_modules_def by (rule distinct_dark_rows) simp

lemma length_dark_modules: "length (dark_modules qr) = card (dark_set qr)"
  using distinct_card [OF distinct_dark_modules, of qr] by (simp add: set_dark_modules)

lemma count_M_sub_path:
  "count_list (separator m @ spec_sub_path border m) CHR ''M'' = 1"
  by (simp add: separator_def spec_sub_path_def)

lemma count_concat_one:
  "(\<And>m. count_list (f m) c = 1) \<Longrightarrow> count_list (concat (map f ms)) c = length ms"
  by (induction ms) simp_all





section \<open>Closed forms of the paint loops\<close>

lemma qrCodePaint_x_eq:
  "qrCodePaint_x painter qr y x =
     painter\<lparr>surface := surface painter @
        map (\<lambda>x. DrawRect (module_rect (x, y)) (worldTransform painter) (brush painter) (pen painter))
          (filter (\<lambda>x. getModule qr x y) [x..getSize qr - 1])\<rparr>"
proof (induction painter qr y x rule: qrCodePaint_x.induct)
  case (1 painter qr y x)
  show ?case
  proof (cases "x < getSize qr")
    case True
    then have up: "[x..getSize qr - 1] = x # [x + 1..getSize qr - 1]"
      by (simp add: upto_rec1)
    show ?thesis
      using True 1 [OF True]
      by (subst qrCodePaint_x.simps) (simp add: up drawRect_def module_rect_def)
  next
    case False
    then show ?thesis
      by (subst qrCodePaint_x.simps) simp
  qed
qed

lemma qrCodePaint_y_eq:
  "qrCodePaint_y painter qr y =
     painter\<lparr>surface := surface painter @
        concat (map (\<lambda>y. map (\<lambda>m. DrawRect (module_rect m) (worldTransform painter) (brush painter) (pen painter))
                           (dark_row qr y))
                  [y..getSize qr - 1])\<rparr>"
proof (induction painter qr y rule: qrCodePaint_y.induct)
  case (1 painter qr y)
  show ?case
  proof (cases "y < getSize qr")
    case True
    then have up: "[y..getSize qr - 1] = y # [y + 1..getSize qr - 1]"
      by (simp add: upto_rec1)
    show ?thesis
      using True 1 [OF True]
      by (subst qrCodePaint_y.simps) (simp add: up qrCodePaint_x_eq dark_row_def comp_def)
  next
    case False
    then show ?thesis
      by (subst qrCodePaint_y.simps) simp
  qed
qed

lemma qrCodePaint_y_dark_modules:
  "qrCodePaint_y painter qr 0 =
     painter\<lparr>surface := surface painter @
        map (\<lambda>m. DrawRect (module_rect m) (worldTransform painter) (brush painter) (pen painter))
          (dark_modules qr)\<rparr>"
  by (simp add: qrCodePaint_y_eq dark_modules_def map_concat comp_def)

lemma qrCodePaint_eq:
  "qrCodePaint painter qr border sz =
     (let s = real (unat sz) / real_of_int (getSize qr + 2 * uint border);
          t = real_of_int (uint border) - 0.02;
          T = transform_translate t t (transform_scale s s (worldTransform painter))
      in painter\<lparr>worldTransform := T,
           surface := surface painter @
             map (\<lambda>m. DrawRect (module_rect m) T (brush painter) (pen painter)) (dark_modules qr)\<rparr>)"
  by (simp add: qrCodePaint_def qrCodePaint_y_dark_modules painter_scale_def painter_translate_def Let_def)

lemma map_point_scale_translate:
  "map_point (transform_translate tx ty (transform_scale sx sy T)) (x, y) =
     map_point T (sx * (x + tx), sy * (y + ty))"
  by (simp add: map_point_def transform_translate_def transform_scale_def Let_def algebra_simps)

lemma qrCodeToImage_eq:
  "qrCodeToImage qr border sz =
     (let s = real (unat sz) / real_of_int (getSize qr + 2 * uint border);
          t = real_of_int (uint border) - 0.02;
          T = transform_translate t t (transform_scale s s identity)
      in \<lparr>image_width = uint sz, image_height = uint sz, image_format = Format_ARGB32,
          image_content = Fill white #
             map (\<lambda>m. DrawRect (module_rect m) T \<lparr>brush_style = SolidPattern, brush_color = black\<rparr>
                          \<lparr>pen_style = NoPen, pen_color = black, pen_width = 1\<rparr>) (dark_modules qr)\<rparr>)"
  by (simp add: qrCodeToImage_def qrCodePaint_eq QImage_new_def image_fill_def QPainter_begin_def
      QPainter_end_def setBrush_def setPen_def QBrush_of_style_def setColor_def QPen_of_style_def Let_def)

section \<open>The logged loops and symbols with the same grid\<close>

lemma toSvgString_x_logged_eq:
  "toSvgString_x_logged qr border y x (sb, acc) =
     (toSvgString_x qr border y x sb, acc @ map (\<lambda>x. (x, y)) [x..getSize qr - 1])"
proof (induction qr border y x "(sb, acc)" arbitrary: sb acc rule: toSvgString_x_logged.induct)
  case (1 qr border y x sb acc)
  show ?case
  proof (cases "x < getSize qr")
    case True
    then have up: "[x..getSize qr - 1] = x # [x + 1..getSize qr - 1]"
      by (simp add: upto_rec1)
    show ?thesis
      using True 1 [OF True, of "getModule qr x y" "acc @ [(x, y)]"]
      by (subst toSvgString_x_logged.simps, subst toSvgString_x.simps)
         (simp add: up getModule_logged_def)
  next
    case False
    then show ?thesis
      by (subst toSvgString_x_logged.simps, subst toSvgString_x.simps) simp
  qed
qed

lemma toSvgString_y_logged_eq:
  "toSvgString_y_logged qr border y (sb, acc) =
     (toSvgString_y qr border y sb, acc @ concat (map (grid_row qr) [y..getSize qr - 1]))"
proof (induction qr border y "(sb, acc)" arbitrary: sb acc rule: toSvgString_y_logged.induct)
  case (1 qr border y sb acc)
  show ?case
  proof (cases "y < getSize qr")
    case True
    then have up: "[y..getSize qr - 1] = y # [y + 1..getSize qr - 1]"
      by (simp add: upto_rec1)
    show ?thesis
      using True 1 [OF True, of "toSvgString_x qr border y 0 sb" "acc @ grid_row qr y"]
      by (subst toSvgString_y_logged.simps, subst toSvgString_y.simps)
         (simp add: up toSvgString_x_logged_eq grid_row_def)
  next
    case False
    then show ?thesis
      by (subst toSvgString_y_logged.simps, subst toSvgString_y.simps) simp
  qed
qed

lemma qrCodePaint_x_logged_eq:
  "qrCodePaint_x_logged (painter, acc) qr y x =
     (qrCodePaint_x painter qr y x, acc @ map (\<lambda>x. (x, y)) [x..getSize qr - 1])"
proof (induction "(painter, acc)" qr y x arbitrary: painter acc rule: qrCodePaint_x_logged.induct)
  case (1 painter acc qr y x)
  show ?case
  proof (cases "x < getSize qr")
    case True
    then have up: "[x..getSize qr - 1] = x # [x + 1..getSize qr - 1]"
      by (simp add: upto_rec1)
    show ?thesis
      using True 1 [OF True, of "getModule qr x y" "acc @ [(x, y)]"]
      by (subst qrCodePaint_x_logged.simps, subst qrCodePaint_x.simps)
         (simp add: up getModule_logged_def)
  next
    case False
    then show ?thesis
      by (subst qrCodePaint_x_logged.simps, subst qrCodePaint_x.simps) simp
  qed
qed

lemma qrCodePaint_y_logged_eq:
  "qrCodePaint_y_logged (painter, acc) qr y =
     (qrCodePaint_y painter qr y, acc @ concat (map (grid_row qr) [y..getSize qr - 1]))"
proof (induction "(painter, acc)" qr y arbitrary: painter acc rule: qrCodePaint_y_logged.induct)
  case (1 qr y painter acc)
  show ?case
  proof (cases "y < getSize qr")
    case True
    then have up: "[y..getSize qr - 1] = y # [y + 1..getSize qr - 1]"
      by (simp add: upto_rec1)
    show ?thesis
      using True 1 [OF True, of "qrCodePaint_x painter qr y 0" "acc @ grid_row qr y"]
      by (subst qrCodePaint_y_logged.simps, subst qrCodePaint_y.simps)
         (simp add: up qrCodePaint_x_logged_eq grid_row_def)
  next
    case False
    then show ?thesis
      by (subst qrCodePaint_y_logged.simps, subst qrCodePaint_y.simps) simp
  qed
qed

lemma set_grid_cells:
  "set (grid_cells qr) = {(x, y). 0 \<le> x \<and> x < getSize qr \<and> 0 \<le> y \<and> y < getSize qr}"
  by (auto simp: grid_cells_def grid_row_def)



section \<open>Scale and translation\<close>

lemma scale_pos:
  assumes "1 \<le> getSize qr" and "0 < sz"
  shows "0 < real (unat sz) / real_of_int (getSize qr + 2 * uint border)"
proof (rule divide_pos_pos)
  have "0 < unat sz"
    using assms(2) by (simp add: word_less_nat_alt)
  then show "0 < real (unat sz)"
    by (simp only: of_nat_0_less_iff)
  have "0 < getSize qr + 2 * uint border"
    using assms(1) uint_ge_0 [of border] by linarith
  then show "0 < real_of_int (getSize qr + 2 * uint border)"
    by (simp only: of_int_0_less_iff)
qed

lemma translation_nonzero: "real_of_int k - 0.02 \<noteq> 0"
proof
  assume "real_of_int k - 0.02 = 0"
  then have "real_of_int (50 * k) = real_of_int 1"
    by simp
  then have "50 * k = 1"
    by (simp only: of_int_eq_iff)
  then show False
    by presburger
qed

lemma identity_not_kept:
  "transform_translate (real_of_int k - 0.02) (real_of_int k - 0.02)
     (transform_scale s s identity) \<noteq> identity"
proof
  assume eq: "transform_translate (real_of_int k - 0.02) (real_of_int k - 0.02)
     (transform_scale s s identity) = identity"
  from arg_cong [OF eq, of m11] have "s = 1"
    by (simp add: transform_translate_def transform_scale_def identity_def)
  moreover from arg_cong [OF eq, of dx] have "(real_of_int k - 0.02) * s = 0"
    by (simp add: transform_translate_def transform_scale_def identity_def)
  ultimately show False
    using translation_nonzero [of k] by simp
qed


section \<open>The bytes the encoder receives\<close>

lemma takeWhile_no_zero: "0 \<notin> set b \<Longrightarrow> takeWhile (\<lambda>c. c \<noteq> 0) b = b"
  by (induction b) auto

section \<open>Evaluating the examples\<close>

lemmas show_int_eval = show_int_def show_nat_small show_nat_large digit_char_def

lemma dark_modules_diagonal: "dark_modules diagonal = [(0, 0), (1, 1)]"
  by (simp add: dark_modules_def dark_row_def diagonal_def upto_rec1)

lemma card_dark_set_diagonal: "card (dark_set diagonal) = 2"
  using length_dark_modules [of diagonal] by (simp add: dark_modules_diagonal)

section \<open>The properties of the specification\<close>

subsection \<open>C1: the SVG document\<close>

text \<open>
  Claim C1. For every symbol and every border value, the SVG string is the document of
  the specification's template: XML declaration, DOCTYPE, an \<^verbatim>\<open>svg\<close> element with view
  box \<open>0 0 W W\<close> and no stroke, where \<open>W = size + 2 * border\<close>, a white background
  rectangle, one path filled \<^verbatim>\<open>#000000\<close> that holds the sub-paths, and the closing tag.

  The template prints one element per line. \<^verbatim>\<open>toSvgString\<close> writes no line break: the
  elements follow each other directly. As amended, the claim reads: the string is the
  concatenation, with nothing between the elements, of the XML declaration, the DOCTYPE,
  the \<^verbatim>\<open>svg\<close> start tag, the rectangle, the path and the closing tag; the path data holds,
  for the dark modules in row-major order, the sub-path \<^verbatim>\<open>M(x+border),(y+border)h1v1h-1z\<close>,
  preceded by one space except for the module at \<open>(0, 0)\<close>.
\<close>

theorem toSvgString_document:
  \<open>toSvgString qr border =
     ''<?xml version="1.0" encoding="UTF-8"?>''
     @ ''<!DOCTYPE svg PUBLIC "-//W3C//DTD SVG 1.1//EN" "http://www.w3.org/Graphics/SVG/1.1/DTD/svg11.dtd">''
     @ ''<svg xmlns="http://www.w3.org/2000/svg" version="1.1" viewBox="0 0 ''
     @ show_int (getSize qr + 2 * uint border) @ '' '' @ show_int (getSize qr + 2 * uint border)
     @ ''" stroke="none">''
     @ ''<rect width="100%" height="100%" fill="#FFFFFF"/>''
     @ ''<path d="''
     @ concat (map (\<lambda>(x, y). (if x = 0 \<and> y = 0 then '''' else '' '')
                              @ ''M'' @ show_int (x + uint border) @ '','' @ show_int (y + uint border)
                              @ ''h1v1h-1z'')
                (dark_modules qr))
     @ ''" fill="#000000"/>''
     @ ''</svg>''\<close>
proof -
  have "(\<lambda>m. separator m @ spec_sub_path border m) =
        (\<lambda>(x, y). (if x = 0 \<and> y = 0 then '''' else '' '')
                   @ ''M'' @ show_int (x + uint border) @ '','' @ show_int (y + uint border)
                   @ ''h1v1h-1z'')"
    by (auto simp: separator_def spec_sub_path_def fun_eq_iff)
  then show ?thesis
    by (simp add: toSvgString_path_data path_data_dark_modules)
qed

text \<open>
  The document of the symbol of one dark module with border 1, as the specification's
  example has it: view box \<open>0 0 3 3\<close> and the single sub-path \<^verbatim>\<open>M1,1h1v1h-1z\<close>.
\<close>

theorem toSvgString_document_witness:
  \<open>toSvgString single_module 1 =
     ''<?xml version="1.0" encoding="UTF-8"?><!DOCTYPE svg PUBLIC "-//W3C//DTD SVG 1.1//EN" "http://www.w3.org/Graphics/SVG/1.1/DTD/svg11.dtd"><svg xmlns="http://www.w3.org/2000/svg" version="1.1" viewBox="0 0 3 3" stroke="none"><rect width="100%" height="100%" fill="#FFFFFF"/><path d="M1,1h1v1h-1z" fill="#000000"/></svg>''\<close>
proof -
  have "dark_modules single_module = [(0, 0)]"
    by (simp add: dark_modules_def dark_row_def single_module_def)
  then show ?thesis
    using toSvgString_document [of single_module 1]
    by (simp add: single_module_def show_int_eval)
qed

text \<open>
  The same document is not the template with its line breaks, filled in with the view box
  side and the path data of this symbol.
\<close>

theorem toSvgString_template_counterexample:
  "toSvgString single_module 1 \<noteq>
     spec_svg_template (getSize single_module + 2 * uint (1 :: quint16)) (spec_path_data single_module 1)"
  by (simp add: toSvgString_def spec_svg_template_def)

subsection \<open>C2: the separators of the sub-paths\<close>



subsection \<open>C3: one sub-path for each dark module\<close>

text \<open>
  Claim C3. For every symbol and border, the number of sub-paths in the path of the
  document equals the number of dark modules of the symbol, and the sub-path of the dark
  module at \<open>(x, y)\<close> is \<^verbatim>\<open>M(x+border),(y+border)h1v1h-1z\<close>.

  The document that \<^verbatim>\<open>toSvgString\<close> returns holds, as its path data, one such sub-path
  (after its separator) for each element of \<open>dark_modules\<close>; this list holds every dark
  cell of the grid exactly once; and the letter \<^verbatim>\<open>M\<close>, which starts a sub-path and occurs
  nowhere else in the document, occurs as often as there are dark cells.
\<close>

theorem toSvgString_sub_paths:
  \<open>toSvgString qr border =
     ''<?xml version="1.0" encoding="UTF-8"?>''
     @ ''<!DOCTYPE svg PUBLIC "-//W3C//DTD SVG 1.1//EN" "http://www.w3.org/Graphics/SVG/1.1/DTD/svg11.dtd">''
     @ ''<svg xmlns="http://www.w3.org/2000/svg" version="1.1" viewBox="0 0 ''
     @ show_int (getSize qr + 2 * uint border) @ '' '' @ show_int (getSize qr + 2 * uint border)
     @ ''" stroke="none"><rect width="100%" height="100%" fill="#FFFFFF"/><path d="''
     @ concat (map (\<lambda>(x, y). (if x = 0 \<and> y = 0 then '''' else '' '')
                              @ ''M'' @ show_int (x + uint border) @ '','' @ show_int (y + uint border)
                              @ ''h1v1h-1z'')
                (dark_modules qr))
     @ ''" fill="#000000"/></svg>''
   \<and> set (dark_modules qr) = dark_set qr
   \<and> distinct (dark_modules qr)
   \<and> length (dark_modules qr) = card (dark_set qr)
   \<and> count_list (toSvgString qr border) CHR ''M'' = card (dark_set qr)\<close>
proof -
  have "(\<lambda>m. separator m @ spec_sub_path border m) =
        (\<lambda>(x, y). (if x = 0 \<and> y = 0 then '''' else '' '')
                   @ ''M'' @ show_int (x + uint border) @ '','' @ show_int (y + uint border)
                   @ ''h1v1h-1z'')"
    by (auto simp: separator_def spec_sub_path_def fun_eq_iff)
  then have doc: "toSvgString qr border =
     ''<?xml version=\"1.0\" encoding=\"UTF-8\"?>''
     @ ''<!DOCTYPE svg PUBLIC \"-//W3C//DTD SVG 1.1//EN\" \"http://www.w3.org/Graphics/SVG/1.1/DTD/svg11.dtd\">''
     @ ''<svg xmlns=\"http://www.w3.org/2000/svg\" version=\"1.1\" viewBox=\"0 0 ''
     @ show_int (getSize qr + 2 * uint border) @ '' '' @ show_int (getSize qr + 2 * uint border)
     @ ''\" stroke=\"none\"><rect width=\"100%\" height=\"100%\" fill=\"#FFFFFF\"/><path d=\"''
     @ concat (map (\<lambda>(x, y). (if x = 0 \<and> y = 0 then '''' else '' '')
                              @ ''M'' @ show_int (x + uint border) @ '','' @ show_int (y + uint border)
                              @ ''h1v1h-1z'')
                (dark_modules qr))
     @ ''\" fill=\"#000000\"/></svg>''"
    by (simp add: toSvgString_path_data path_data_dark_modules)
  have "count_list (path_data qr border) CHR ''M'' = length (dark_modules qr)"
    unfolding path_data_dark_modules
    by (rule count_concat_one) (rule count_M_sub_path)
  then have "count_list (toSvgString qr border) CHR ''M'' = card (dark_set qr)"
    by (simp add: toSvgString_path_data length_dark_modules)
  with doc show ?thesis
    by (simp only: set_dark_modules distinct_dark_modules length_dark_modules simp_thms)
qed

theorem toSvgString_sub_paths_witness:
  "dark_modules diagonal = [(0, 0), (1, 1)]
   \<and> card (dark_set diagonal) = 2
   \<and> count_list (toSvgString diagonal 3) CHR ''M'' = 2"
proof -
  note toSvgString_sub_paths [of diagonal 3]
  then have "count_list (toSvgString diagonal 3) CHR ''M'' = card (dark_set diagonal)"
    by (elim conjE)
  then show ?thesis
    by (simp add: dark_modules_diagonal card_dark_set_diagonal)
qed

subsection \<open>C4: the geometry of the paint and raster projections\<close>

text \<open>
  Claim C4. For every symbol of side \<open>N \<ge> 1\<close>, every positive output size and every
  border, painting uses \<open>scale = size / (N + 2 * border)\<close> on both axes, translates the
  origin by \<open>border - 0.02\<close> on both axes in grid units, and draws each dark module at
  grid position \<open>(x, y)\<close> as a square of side 1.04 with its top-left corner at \<open>(x, y)\<close>.

  The transform left in the painter is the translation applied to the scaled transform of
  the caller; it maps the grid point \<open>(x, y)\<close> to where the caller's transform maps
  \<open>(scale * (x + t), scale * (y + t))\<close>, so the translation is in grid units. The
  rectangles are drawn under this transform, one for each dark module in row-major order;
  the raster image holds the same rectangles, drawn from the identity transform.
\<close>

theorem qrCodePaint_geometry:
  assumes "1 \<le> getSize qr" and "0 < sz"
  shows
    "let scale = real (unat sz) / real_of_int (getSize qr + 2 * uint border);
         t = real_of_int (uint border) - 0.02;
         T = transform_translate t t (transform_scale scale scale (worldTransform painter));
         T' = transform_translate t t (transform_scale scale scale identity)
     in 0 < scale
        \<and> worldTransform (qrCodePaint painter qr border sz) = T
        \<and> (\<forall>x y. map_point T (x, y) =
                    map_point (worldTransform painter) (scale * (x + t), scale * (y + t)))
        \<and> surface (qrCodePaint painter qr border sz) =
            surface painter @
            map (\<lambda>(x, y). DrawRect \<lparr>rect_x = real_of_int x, rect_y = real_of_int y,
                                     rect_width = 1.04, rect_height = 1.04\<rparr>
                              T (brush painter) (pen painter))
              (dark_modules qr)
        \<and> tl (image_content (qrCodeToImage qr border sz)) =
            map (\<lambda>(x, y). DrawRect \<lparr>rect_x = real_of_int x, rect_y = real_of_int y,
                                     rect_width = 1.04, rect_height = 1.04\<rparr>
                              T' \<lparr>brush_style = SolidPattern, brush_color = black\<rparr>
                              \<lparr>pen_style = NoPen, pen_color = black, pen_width = 1\<rparr>)
              (dark_modules qr)"
  using scale_pos [OF assms, of border]
  by (simp add: Let_def qrCodePaint_eq qrCodeToImage_eq map_point_scale_translate
      case_prod_unfold module_rect_def)

theorem qrCodePaint_geometry_witness:
  "1 \<le> getSize diagonal \<and> 0 < (8 :: quint16)
   \<and> worldTransform (qrCodePaint example_painter diagonal 1 8) =
       \<lparr>m11 = 2, m12 = 0, m13 = 0, m21 = 0, m22 = 2, m23 = 0, dx = 1.96, dy = 1.96, m33 = 1\<rparr>
   \<and> map_point (worldTransform (qrCodePaint example_painter diagonal 1 8)) (1, 1) = (3.96, 3.96)
   \<and> length (surface (qrCodePaint example_painter diagonal 1 8)) = 2"
proof -
  have h1: "1 \<le> getSize diagonal"
    by (simp add: diagonal_def)
  have h2: "0 < (8 :: quint16)"
    by simp
  have gs: "getSize diagonal = 2"
    by (simp add: diagonal_def)
  from qrCodePaint_geometry [OF h1 h2, of 1 example_painter] h1 h2 show ?thesis
    by (simp add: Let_def gs dark_modules_diagonal example_painter_def identity_def
        transform_translate_def transform_scale_def map_point_def)
qed

subsection \<open>C5: the raster image\<close>

text \<open>
  Claim C5. Whenever the text is encodable, the image returned by \<^verbatim>\<open>generateQr\<close> is
  \<open>size\<close> pixels wide and high, whatever the symbol and the border are, and it is filled
  white before any module is drawn.

  The content of the image is the white fill followed by one rectangle for each dark
  module, drawn with the solid black brush and without pen.
\<close>

theorem generateQr_image:
  assumes "encodeText (constData (toUtf data)) ecc = Inr qr"
  shows "\<exists>img T. generateQr toUtf encodeText data sz border ecc = Inr img
           \<and> image_width img = uint sz \<and> image_height img = uint sz
           \<and> image_content img =
               Fill white #
               map (\<lambda>m. DrawRect (module_rect m) T
                            \<lparr>brush_style = SolidPattern, brush_color = black\<rparr>
                            \<lparr>pen_style = NoPen, pen_color = black, pen_width = 1\<rparr>)
                 (dark_modules qr)"
  using assms by (simp add: generateQr_def qrCodeToImage_eq Let_def)

theorem generateQr_image_witness:
  "example_encoder (constData (id [72, 105])) MEDIUM = Inr diagonal
   \<and> (\<exists>img. generateQr id example_encoder [72, 105] 300 4 MEDIUM = Inr img
          \<and> image_width img = 300 \<and> image_height img = 300
          \<and> hd (image_content img) = Fill white
          \<and> length (image_content img) = 3)"
proof -
  have h: "example_encoder (constData (id [72, 105])) MEDIUM = Inr diagonal"
    by (simp add: example_encoder_def constData_def)
  from generateQr_image
         [where encodeText = example_encoder and toUtf = id and data = "[72, 105]"
            and sz = 300 and border = 4, OF h] h
  show ?thesis
    by (auto simp: dark_modules_diagonal)
qed

subsection \<open>C6: calling an entry point twice\<close>




subsection \<open>C7: rendering does not fail\<close>

text \<open>
  Claim C7. Rendering raises no error for any border and any positive output size. When
  the output size is less than \<open>N + 2 * border\<close>, the scale factor is less than 1 and
  rendering still returns its result.

  Once the encoder has returned a symbol, each entry point returns the rendering of that
  symbol; the loops terminate for every symbol, so the rendering is defined. Every dark
  module is drawn, whatever the size is. When the size is less than \<open>N + 2 * border\<close>
  the scale is between 0 and 1 and is applied as it is.
\<close>

theorem rendering_never_fails:
  assumes "encodeText (constData (toUtf data)) ecc = Inr qr"
    and "1 \<le> getSize qr" and "0 < sz"
  shows "generateQr toUtf encodeText data sz border ecc = Inr (qrCodeToImage qr border sz)
       \<and> paintQr toUtf encodeText painter data sz border ecc =
           Inr (qrCodePaint painter qr border sz)
       \<and> generateSvgQr toUtf encodeText data border ecc = Inr (toSvgString qr border)
       \<and> length (surface (qrCodePaint painter qr border sz)) =
           length (surface painter) + card (dark_set qr)
       \<and> length (image_content (qrCodeToImage qr border sz)) = 1 + card (dark_set qr)
       \<and> (uint sz < getSize qr + 2 * uint border \<longrightarrow>
            (let scale = real (unat sz) / real_of_int (getSize qr + 2 * uint border)
             in 0 < scale \<and> scale < 1
                \<and> worldTransform (qrCodePaint painter qr border sz) =
                    transform_translate (real_of_int (uint border) - 0.02)
                      (real_of_int (uint border) - 0.02)
                      (transform_scale scale scale (worldTransform painter))))"
proof -
  have "real (unat sz) / real_of_int (getSize qr + 2 * uint border) < 1"
    if "uint sz < getSize qr + 2 * uint border"
  proof -
    have "real (unat sz) = real_of_int (uint sz)"
      by simp
    also have "\<dots> < real_of_int (getSize qr + 2 * uint border)"
      using that by (simp only: of_int_less_iff)
    finally have less: "real (unat sz) < real_of_int (getSize qr + 2 * uint border)" .
    have "0 < getSize qr + 2 * uint border"
      using assms(2) uint_ge_0 [of border] by linarith
    then have "0 < real_of_int (getSize qr + 2 * uint border)"
      by (simp only: of_int_0_less_iff)
    then show ?thesis
      using less by (simp only: divide_less_eq_1_pos)
  qed
  with scale_pos [OF assms(2,3), of border] assms(1) show ?thesis
    by (simp add: generateQr_def paintQr_def generateSvgQr_def Let_def qrCodePaint_eq
        qrCodeToImage_eq length_dark_modules)
qed

theorem rendering_never_fails_witness:
  "example_encoder (constData (id [72, 105])) HIGH = Inr diagonal
   \<and> 1 \<le> getSize diagonal \<and> 0 < (2 :: quint16)
   \<and> uint (2 :: quint16) < getSize diagonal + 2 * uint (1 :: quint16)
   \<and> (\<exists>img. generateQr id example_encoder [72, 105] 2 1 HIGH = Inr img)
   \<and> (\<exists>p. paintQr id example_encoder example_painter [72, 105] 2 1 HIGH = Inr p
          \<and> m11 (worldTransform p) = 1 / 2 \<and> length (surface p) = 2)
   \<and> (\<exists>svg. generateSvgQr id example_encoder [72, 105] 1 HIGH = Inr svg)"
proof -
  have h1: "example_encoder (constData (id [72, 105])) HIGH = Inr diagonal"
    by (simp add: example_encoder_def constData_def)
  have h2: "1 \<le> getSize diagonal"
    by (simp add: diagonal_def)
  have h3: "0 < (2 :: quint16)"
    by simp
  have gs: "getSize diagonal = 2"
    by (simp add: diagonal_def)
  have h4: "uint (2 :: quint16) < getSize diagonal + 2 * uint (1 :: quint16)"
    by (simp add: gs)
  from rendering_never_fails
         [where encodeText = example_encoder and toUtf = id and data = "[72, 105]"
            and border = 1 and painter = example_painter, OF h1 h2 h3] h1 h2 h3 h4
  show ?thesis
    by (simp add: Let_def gs card_dark_set_diagonal example_painter_def identity_def
        transform_translate_def transform_scale_def)
qed

subsection \<open>C8: an encoding failure reaches the caller unchanged\<close>

text \<open>
  Claim C8. When the encoder cannot represent the text at the requested level, each of
  the three entry points raises the encoder's failure unchanged, and the entry points
  produce no other error.

  The entry points hand the UTF-8 bytes to the encoder as a C string, so the encoder
  receives the bytes before the first zero byte only. A text that the encoder cannot
  represent, but whose part before a zero byte it can, is rendered without an error. As
  amended, the claim reads: an entry point raises \<open>e\<close> exactly when the encoder fails
  with \<open>e\<close> on the UTF-8 bytes of the text before the first zero byte; for a text
  without a zero byte these are all its bytes, and the claim holds as it was stated.
\<close>

theorem encoding_failure_reaches_caller:
  "(generateQr toUtf encodeText data sz border ecc = Inl e
      \<longleftrightarrow> encodeText (takeWhile (\<lambda>c. c \<noteq> 0) (toUtf data)) ecc = Inl e)
   \<and> (paintQr toUtf encodeText painter data sz border ecc = Inl e
      \<longleftrightarrow> encodeText (takeWhile (\<lambda>c. c \<noteq> 0) (toUtf data)) ecc = Inl e)
   \<and> (generateSvgQr toUtf encodeText data border ecc = Inl e
      \<longleftrightarrow> encodeText (takeWhile (\<lambda>c. c \<noteq> 0) (toUtf data)) ecc = Inl e)
   \<and> (0 \<notin> set (toUtf data) \<longrightarrow>
        (generateQr toUtf encodeText data sz border ecc = Inl e
           \<longleftrightarrow> encodeText (toUtf data) ecc = Inl e)
        \<and> (paintQr toUtf encodeText painter data sz border ecc = Inl e
           \<longleftrightarrow> encodeText (toUtf data) ecc = Inl e)
        \<and> (generateSvgQr toUtf encodeText data border ecc = Inl e
           \<longleftrightarrow> encodeText (toUtf data) ecc = Inl e))"
proof -
  let ?b = "takeWhile (\<lambda>c. c \<noteq> 0) (toUtf data)"
  have 1: "generateQr toUtf encodeText data sz border ecc = Inl e \<longleftrightarrow> encodeText ?b ecc = Inl e"
    by (simp add: generateQr_def constData_def Let_def split: sum.split)
  have 2: "paintQr toUtf encodeText painter data sz border ecc = Inl e
      \<longleftrightarrow> encodeText ?b ecc = Inl e"
    by (simp add: paintQr_def constData_def Let_def split: sum.split)
  have 3: "generateSvgQr toUtf encodeText data border ecc = Inl e \<longleftrightarrow> encodeText ?b ecc = Inl e"
    by (simp add: generateSvgQr_def constData_def Let_def split: sum.split)
  have 4: "(generateQr toUtf encodeText data sz border ecc = Inl e
           \<longleftrightarrow> encodeText (toUtf data) ecc = Inl e)
        \<and> (paintQr toUtf encodeText painter data sz border ecc = Inl e
           \<longleftrightarrow> encodeText (toUtf data) ecc = Inl e)
        \<and> (generateSvgQr toUtf encodeText data border ecc = Inl e
           \<longleftrightarrow> encodeText (toUtf data) ecc = Inl e)"
    if "0 \<notin> set (toUtf data)"
  proof -
    from that have "?b = toUtf data"
      by (rule takeWhile_no_zero)
    with 1 2 3 show ?thesis
      by (simp only: simp_thms)
  qed
  from 1 2 3 4 show ?thesis
    by blast
qed

theorem encoding_failure_reaches_caller_witness:
  "0 \<notin> set (id [72 :: byte, 69, 76, 76, 79])
   \<and> example_encoder (id [72, 69, 76, 76, 79]) HIGH = Inl ''data too long''
   \<and> generateQr id example_encoder [72, 69, 76, 76, 79] 300 4 HIGH = Inl ''data too long''
   \<and> paintQr id example_encoder example_painter [72, 69, 76, 76, 79] 300 4 HIGH =
       Inl ''data too long''
   \<and> generateSvgQr id example_encoder [72, 69, 76, 76, 79] 4 HIGH = Inl ''data too long''"
proof -
  have z: "0 \<notin> set (id [72 :: byte, 69, 76, 76, 79])"
    by simp
  have h: "example_encoder (id [72, 69, 76, 76, 79]) HIGH = Inl ''data too long''"
    by (simp add: example_encoder_def)
  with z encoding_failure_reaches_caller
         [of id example_encoder "[72, 69, 76, 76, 79]" 300 4 HIGH "''data too long''"
            example_painter]
  show ?thesis
    by simp
qed

text \<open>
  The example encoder rejects the five bytes of a text whose second byte is zero, but the
  entry points hand it the first byte only and return the rendering of its symbol.
\<close>

theorem encoding_failure_counterexample:
  "example_encoder (id [72, 0, 76, 76, 79]) HIGH = Inl ''data too long''
   \<and> generateQr id example_encoder [72, 0, 76, 76, 79] 300 4 HIGH =
       Inr (qrCodeToImage diagonal 4 300)
   \<and> paintQr id example_encoder example_painter [72, 0, 76, 76, 79] 300 4 HIGH =
       Inr (qrCodePaint example_painter diagonal 4 300)
   \<and> generateSvgQr id example_encoder [72, 0, 76, 76, 79] 4 HIGH =
       Inr (toSvgString diagonal 4)"
  by (simp add: example_encoder_def generateQr_def paintQr_def generateSvgQr_def constData_def)

subsection \<open>C9: what painting changes in the drawing context\<close>

text \<open>
  Claim C9. The paint entry point changes the coordinate transform of the caller's
  drawing context and nothing else of its state: the transform is scaled and then
  translated and is not restored; brush and pen stay as the caller set them, so the
  rectangles are drawn with the caller's brush and pen.

  The context returned is the context given with two fields updated: the transform, and
  the list of what was drawn, which grows by the rectangles of the dark modules. Its
  brush, its pen and every further field are those of the context given. A context that
  starts with the identity transform does not end with it.
\<close>

theorem paintQr_frame:
  assumes "encodeText (constData (toUtf data)) ecc = Inr qr"
  shows
    "let scale = real (unat sz) / real_of_int (getSize qr + 2 * uint border);
         t = real_of_int (uint border) - 0.02;
         T = transform_translate t t (transform_scale scale scale (worldTransform painter))
     in \<exists>painter'.
          paintQr toUtf encodeText painter data sz border ecc = Inr painter'
          \<and> painter' = painter
               \<lparr>worldTransform := T,
                surface := surface painter @
                  map (\<lambda>m. DrawRect (module_rect m) T (brush painter) (pen painter))
                    (dark_modules qr)\<rparr>
          \<and> brush painter' = brush painter
          \<and> pen painter' = pen painter
          \<and> QPainter.more painter' = QPainter.more painter
          \<and> (worldTransform painter = identity \<longrightarrow> worldTransform painter' \<noteq> identity)"
  using assms identity_not_kept [of "uint border"]
  by (simp add: paintQr_def Let_def qrCodePaint_eq)

theorem paintQr_frame_witness:
  "example_encoder (constData (id [72, 105])) LOW = Inr diagonal
   \<and> worldTransform example_painter = identity
   \<and> (\<exists>painter'.
        paintQr id example_encoder example_painter [72, 105] 8 1 LOW = Inr painter'
        \<and> brush painter' = \<lparr>brush_style = SolidPattern, brush_color = 0xFFFF0000\<rparr>
        \<and> pen painter' = QPen_of_style SolidLine
        \<and> worldTransform painter' \<noteq> identity
        \<and> surface painter' =
            map (\<lambda>m. DrawRect (module_rect m) (worldTransform painter')
                         \<lparr>brush_style = SolidPattern, brush_color = 0xFFFF0000\<rparr>
                         (QPen_of_style SolidLine))
              [(0, 0), (1, 1)])"
proof -
  have h: "example_encoder (constData (id [72, 105])) LOW = Inr diagonal"
    by (simp add: example_encoder_def constData_def)
  have i: "worldTransform example_painter = identity"
    by (simp add: example_painter_def)
  from paintQr_frame
         [where encodeText = example_encoder and toUtf = id and data = "[72, 105]"
            and sz = 8 and border = 1 and painter = example_painter, OF h] h i
  show ?thesis
    by (simp add: Let_def dark_modules_diagonal example_painter_def)
qed

subsection \<open>C10: safe arithmetic and module accesses\<close>

text \<open>
  Claim C10. For every symbol of side \<open>N \<ge> 1\<close> and every border, the divisor
  \<open>N + 2 * border\<close> of the scale is strictly positive, and every call of
  \<^verbatim>\<open>getModule(x, y)\<close> made by the SVG and paint loops has \<open>0 \<le> x < N\<close> and
  \<open>0 \<le> y < N\<close>.

  The logged loops return what the loops return, and their log of accesses is the list of
  the cells of the grid, row by row: each cell is read once, and no other position is.
\<close>

theorem loops_in_bounds:
  assumes "1 \<le> getSize qr"
  shows "0 < getSize qr + 2 * uint border
       \<and> real_of_int (getSize qr + 2 * uint border) \<noteq> 0
       \<and> toSvgString_y_logged qr border 0 (sb, []) =
           (toSvgString_y qr border 0 sb, grid_cells qr)
       \<and> qrCodePaint_y_logged (painter, []) qr 0 = (qrCodePaint_y painter qr 0, grid_cells qr)
       \<and> (\<forall>(x, y) \<in> set (grid_cells qr).
             0 \<le> x \<and> x < getSize qr \<and> 0 \<le> y \<and> y < getSize qr)"
proof -
  have pos: "0 < getSize qr + 2 * uint border"
    using assms uint_ge_0 [of border] by linarith
  then have "getSize qr + 2 * uint border \<noteq> 0"
    by simp
  then have nz: "real_of_int (getSize qr + 2 * uint border) \<noteq> 0"
    by (simp only: of_int_eq_0_iff not_False_eq_True)
  have svg: "toSvgString_y_logged qr border 0 (sb, []) =
      (toSvgString_y qr border 0 sb, grid_cells qr)"
    by (simp add: toSvgString_y_logged_eq grid_cells_def)
  have paint: "qrCodePaint_y_logged (painter, []) qr 0 =
      (qrCodePaint_y painter qr 0, grid_cells qr)"
    by (simp add: qrCodePaint_y_logged_eq grid_cells_def)
  have "\<forall>(x, y) \<in> set (grid_cells qr).
          0 \<le> x \<and> x < getSize qr \<and> 0 \<le> y \<and> y < getSize qr"
    by (simp add: set_grid_cells)
  with pos nz svg paint show ?thesis
    by (simp only: simp_thms)
qed

theorem loops_in_bounds_witness:
  "1 \<le> getSize diagonal
   \<and> 0 < getSize diagonal + 2 * uint (0 :: quint16)
   \<and> snd (toSvgString_y_logged diagonal 0 0 ('''', [])) = [(0, 0), (1, 0), (0, 1), (1, 1)]
   \<and> snd (qrCodePaint_y_logged (example_painter, []) diagonal 0) =
       [(0, 0), (1, 0), (0, 1), (1, 1)]"
proof -
  have h: "1 \<le> getSize diagonal"
    by (simp add: diagonal_def)
  have "grid_cells diagonal = [(0, 0), (1, 0), (0, 1), (1, 1)]"
    by (simp add: grid_cells_def grid_row_def diagonal_def upto_rec1)
  with loops_in_bounds [OF h, of 0 "''''" example_painter] h show ?thesis
    by simp
qed

end
